theory Spec2Isabelle
  imports Main
begin

section \<open>The Route type of go-api-controller (route.go)\<close>

text \<open>
  The Go file declares the struct \<open>Route\<close> and nine methods with a pointer receiver.
  The embedding keeps the pointer: a \<open>*Route\<close> is an address into a store of Route
  values, so that the method value \<open>self.handleRequest\<close> handed to the routing engine
  at registration reads the Route as it is when a request is dispatched.

  A Go call that goes wrong panics. A method returns an outcome together with the
  state it leaves behind, because the assignments made before a panic stay in
  memory. The three nil cases of the file (a field access through a nil pointer,
  a call of a method on a nil interface value, a call of a nil func value) are the
  same run-time error in Go.
\<close>

type_synonym addr = nat

datatype panic = NilDereference | PanicValue string

datatype 'a outcome = Returned 'a | Panicked panic

text \<open>
  Code outside route.go (the routing engine behind the adapter interfaces, the
  application's controller functions, the two constructors of the request context)
  acts on a world \<open>'w\<close> that is disjoint from the Route and Router objects, and may
  panic.
\<close>

type_synonym ('a, 'w) call = "'w \<Rightarrow> 'a outcome \<times> 'w"

text \<open>
  Modelled from the spec: the type \<open>ControllerFn\<close> is declared outside route.go;
  the spec gives \<open>ControllerFn = func(ctx RequestContext)\<close>, and route.go calls it
  with the context as its one argument. \<open>None\<close> in a field is the nil func value.
\<close>

type_synonym ('ctx, 'w) ControllerFn = "'ctx \<Rightarrow> (unit, 'w) call"

text \<open>
  Modelled from the spec: the interface \<open>FrameworkRoute\<close> is declared outside
  route.go; the spec gives it the one method \<open>RouteVars(request)\<close>, which returns a
  mapping from strings to strings. A value of the interface is the record of its
  methods; \<open>None\<close> in a field is the nil interface value.
\<close>

record ('req, 'w) FrameworkRoute =
  fr_RouteVars :: "'req \<Rightarrow> (string \<rightharpoonup> string, 'w) call"

text \<open>
  The handler given to the engine is the method value \<open>self.handleRequest\<close>: it
  captures the receiver pointer, not a copy of the Route.
\<close>

datatype HandlerFunc = BoundHandleRequest addr

text \<open>
  Modelled from the spec: the interface \<open>FrameworkRouter\<close> is declared outside
  route.go; the spec gives it \<open>NewRoute(method, path, handler)\<close>, which returns a
  \<open>FrameworkRoute\<close> and changes the routing table of the engine.
\<close>

record ('req, 'w) FrameworkRouter =
  NewRoute :: "string \<Rightarrow> string \<Rightarrow> HandlerFunc \<Rightarrow>
    (('req, 'w) FrameworkRoute option, 'w) call"

text \<open>
  Modelled from the spec: the struct \<open>Router\<close> is declared outside route.go, which
  reads its field \<open>fwRouter\<close> only; the spec lists the shared adapter instance
  \<open>fwRouter\<close> and the path \<open>prefix\<close>.
\<close>

record ('req, 'w) Router =
  fwRouter :: "('req, 'w) FrameworkRouter option"
  prefix :: string

text \<open>
  The struct of lines 5 to 13. \<open>router\<close> is a \<open>*Router\<close>, an address or nil.
  \<open>defaultStatus\<close> is a Go \<open>int\<close>; the file assigns it and compares it with 0 and
  does no arithmetic on it, so it is an integer here.
\<close>

record ('req, 'ctx, 'w) Route =
  fwRoute :: "('req, 'w) FrameworkRoute option"
  router :: "addr option"
  "method" :: string
  path :: string
  fullPath :: string
  defaultStatus :: int
  controllerFn :: "('ctx, 'w) ControllerFn option"

text \<open>
  The memory: the Route and Router objects by address, and the world outside them.
  An address with no object stands for a nil pointer.
\<close>

record ('req, 'ctx, 'w) memory =
  routes :: "addr \<rightharpoonup> ('req, 'ctx, 'w) Route"
  routers :: "addr \<rightharpoonup> ('req, 'w) Router"
  world :: 'w

subsection \<open>Accessors\<close>

definition ControllerFn ::
  "addr \<Rightarrow> ('req, 'ctx, 'w) memory \<Rightarrow>
   ('ctx, 'w) ControllerFn option outcome \<times> ('req, 'ctx, 'w) memory" where
  "ControllerFn self s =
     (case routes s self of
        None \<Rightarrow> (Panicked NilDereference, s)
      | Some r \<Rightarrow> (Returned (controllerFn r), s))"

definition FullPath ::
  "addr \<Rightarrow> ('req, 'ctx, 'w) memory \<Rightarrow> string outcome \<times> ('req, 'ctx, 'w) memory" where
  "FullPath self s =
     (case routes s self of
        None \<Rightarrow> (Panicked NilDereference, s)
      | Some r \<Rightarrow> (Returned (fullPath r), s))"

definition Method ::
  "addr \<Rightarrow> ('req, 'ctx, 'w) memory \<Rightarrow> string outcome \<times> ('req, 'ctx, 'w) memory" where
  "Method self s =
     (case routes s self of
        None \<Rightarrow> (Panicked NilDereference, s)
      | Some r \<Rightarrow> (Returned (method r), s))"

definition Path ::
  "addr \<Rightarrow> ('req, 'ctx, 'w) memory \<Rightarrow> string outcome \<times> ('req, 'ctx, 'w) memory" where
  "Path self s =
     (case routes s self of
        None \<Rightarrow> (Panicked NilDereference, s)
      | Some r \<Rightarrow> (Returned (path r), s))"

subsection \<open>RouteVars\<close>

definition RouteVars ::
  "addr \<Rightarrow> 'req \<Rightarrow> ('req, 'ctx, 'w) memory \<Rightarrow>
   (string \<rightharpoonup> string) outcome \<times> ('req, 'ctx, 'w) memory" where
  "RouteVars self r s =
     (case routes s self of
        None \<Rightarrow> (Panicked NilDereference, s)
      | Some rt \<Rightarrow>
          (case fwRoute rt of
             None \<Rightarrow> (Panicked NilDereference, s)
           | Some h \<Rightarrow>
               (case fr_RouteVars h r (world s) of
                  (res, w') \<Rightarrow> (res, s\<lparr>world := w'\<rparr>))))"

subsection \<open>Setters\<close>

definition SetControllerFn ::
  "addr \<Rightarrow> ('ctx, 'w) ControllerFn option \<Rightarrow> ('req, 'ctx, 'w) memory \<Rightarrow>
   addr outcome \<times> ('req, 'ctx, 'w) memory" where
  "SetControllerFn self fn s =
     (case routes s self of
        None \<Rightarrow> (Panicked NilDereference, s)
      | Some r \<Rightarrow>
          (Returned self, s\<lparr>routes := (routes s)(self \<mapsto> r\<lparr>controllerFn := fn\<rparr>)\<rparr>))"

definition SetDefaultStatus ::
  "addr \<Rightarrow> int \<Rightarrow> ('req, 'ctx, 'w) memory \<Rightarrow>
   addr outcome \<times> ('req, 'ctx, 'w) memory" where
  "SetDefaultStatus self status s =
     (case routes s self of
        None \<Rightarrow> (Panicked NilDereference, s)
      | Some r \<Rightarrow>
          (Returned self, s\<lparr>routes := (routes s)(self \<mapsto> r\<lparr>defaultStatus := status\<rparr>)\<rparr>))"

subsection \<open>register\<close>

text \<open>
  Lines 46 to 52 resolve the status, line 54 stores the handler, lines 56 to 60 call
  the adapter through \<open>self.router.fwRouter\<close> and store the handle it returns. The
  two assignments that precede the adapter call are kept when that call panics.
\<close>

definition resolveStatus :: "('req, 'ctx, 'w) Route \<Rightarrow> ('req, 'ctx, 'w) Route" where
  "resolveStatus r =
     (if defaultStatus r = 0 then
        (if method r = ''POST'' then r\<lparr>defaultStatus := 201\<rparr>
         else r\<lparr>defaultStatus := 200\<rparr>)
      else r)"

definition register ::
  "addr \<Rightarrow> ('ctx, 'w) ControllerFn option \<Rightarrow> ('req, 'ctx, 'w) memory \<Rightarrow>
   addr outcome \<times> ('req, 'ctx, 'w) memory" where
  "register self fn s =
     (case routes s self of
        None \<Rightarrow> (Panicked NilDereference, s)
      | Some r0 \<Rightarrow>
          (let r = (resolveStatus r0)\<lparr>controllerFn := fn\<rparr>;
               s1 = s\<lparr>routes := (routes s)(self \<mapsto> r)\<rparr>
           in case router r of
                None \<Rightarrow> (Panicked NilDereference, s1)
              | Some ra \<Rightarrow>
                  (case routers s1 ra of
                     None \<Rightarrow> (Panicked NilDereference, s1)
                   | Some rtr \<Rightarrow>
                       (case fwRouter rtr of
                          None \<Rightarrow> (Panicked NilDereference, s1)
                        | Some fw \<Rightarrow>
                            (case NewRoute fw (method r) (path r)
                                    (BoundHandleRequest self) (world s1) of
                               (Panicked p, w') \<Rightarrow> (Panicked p, s1\<lparr>world := w'\<rparr>)
                             | (Returned h, w') \<Rightarrow>
                                 (Returned self,
                                  s1\<lparr>routes := (routes s1)(self \<mapsto> r\<lparr>fwRoute := h\<rparr>),
                                     world := w'\<rparr>))))))"

subsection \<open>handleRequest\<close>

text \<open>
  The constructors \<open>newResponseWriter\<close> and \<open>newContextForRequest\<close> are declared
  outside route.go and are parameters here: \<open>nrw\<close> takes the raw response writer and
  a status, \<open>ncr\<close> takes the wrapper, the raw request and the Route pointer. Go
  evaluates line 66 first (the read of \<open>self.defaultStatus\<close>, then
  \<open>newResponseWriter\<close>), then \<open>newContextForRequest\<close>, then the call of
  \<open>self.controllerFn\<close> on line 70.
\<close>

definition handleRequest ::
  "('rw \<Rightarrow> int \<Rightarrow> ('wr, 'w) call) \<Rightarrow> ('wr \<Rightarrow> 'req \<Rightarrow> addr \<Rightarrow> ('ctx, 'w) call) \<Rightarrow>
   addr \<Rightarrow> 'rw \<Rightarrow> 'req \<Rightarrow> ('req, 'ctx, 'w) memory \<Rightarrow>
   unit outcome \<times> ('req, 'ctx, 'w) memory" where
  "handleRequest nrw ncr self w r s =
     (case routes s self of
        None \<Rightarrow> (Panicked NilDereference, s)
      | Some rt \<Rightarrow>
          (case nrw w (defaultStatus rt) (world s) of
             (Panicked p, w1) \<Rightarrow> (Panicked p, s\<lparr>world := w1\<rparr>)
           | (Returned wrapper, w1) \<Rightarrow>
               (case ncr wrapper r self w1 of
                  (Panicked p, w2) \<Rightarrow> (Panicked p, s\<lparr>world := w2\<rparr>)
                | (Returned ctx, w2) \<Rightarrow>
                    (case controllerFn rt of
                       None \<Rightarrow> (Panicked NilDereference, s\<lparr>world := w2\<rparr>)
                     | Some fn \<Rightarrow>
                         (case fn ctx w2 of
                            (res, w3) \<Rightarrow> (res, s\<lparr>world := w3\<rparr>))))))"


subsection \<open>Sequences of calls\<close>

text \<open>
  A program calls the methods one after the other, on any Route. A call that panics
  leaves the memory it reached, and a caller that recovers goes on from there, so a
  sequence is run to its end whatever the outcomes.
\<close>

datatype ('rw, 'req, 'ctx, 'w) operation =
    CallSetControllerFn addr "('ctx, 'w) ControllerFn option"
  | CallSetDefaultStatus addr int
  | CallRegister addr "('ctx, 'w) ControllerFn option"
  | CallHandleRequest addr 'rw 'req

fun perform ::
  "('rw \<Rightarrow> int \<Rightarrow> ('wr, 'w) call) \<Rightarrow> ('wr \<Rightarrow> 'req \<Rightarrow> addr \<Rightarrow> ('ctx, 'w) call) \<Rightarrow>
   ('rw, 'req, 'ctx, 'w) operation \<Rightarrow> ('req, 'ctx, 'w) memory \<Rightarrow>
   ('req, 'ctx, 'w) memory" where
  "perform nrw ncr (CallSetControllerFn a fn) s = snd (SetControllerFn a fn s)"
| "perform nrw ncr (CallSetDefaultStatus a status) s = snd (SetDefaultStatus a status s)"
| "perform nrw ncr (CallRegister a fn) s = snd (register a fn s)"
| "perform nrw ncr (CallHandleRequest a w r) s = snd (handleRequest nrw ncr a w r s)"

definition performAll ::
  "('rw \<Rightarrow> int \<Rightarrow> ('wr, 'w) call) \<Rightarrow> ('wr \<Rightarrow> 'req \<Rightarrow> addr \<Rightarrow> ('ctx, 'w) call) \<Rightarrow>
   ('rw, 'req, 'ctx, 'w) operation list \<Rightarrow> ('req, 'ctx, 'w) memory \<Rightarrow>
   ('req, 'ctx, 'w) memory" where
  "performAll nrw ncr ops s = fold (perform nrw ncr) ops s"

text \<open>The func value a call hands to the Route at \<open>self\<close>, if it hands one.\<close>

fun suppliedFn ::
  "addr \<Rightarrow> ('rw, 'req, 'ctx, 'w) operation \<Rightarrow> ('ctx, 'w) ControllerFn option option" where
  "suppliedFn self (CallSetControllerFn a fn) = (if a = self then Some fn else None)"
| "suppliedFn self (CallRegister a fn) = (if a = self then Some fn else None)"
| "suppliedFn self (CallSetDefaultStatus a status) = None"
| "suppliedFn self (CallHandleRequest a w r) = None"

fun registers :: "addr \<Rightarrow> ('rw, 'req, 'ctx, 'w) operation \<Rightarrow> bool" where
  "registers self (CallRegister a fn) = (a = self)"
| "registers self (CallSetControllerFn a fn) = False"
| "registers self (CallSetDefaultStatus a status) = False"
| "registers self (CallHandleRequest a w r) = False"

fun clearsStatus :: "addr \<Rightarrow> ('rw, 'req, 'ctx, 'w) operation \<Rightarrow> bool" where
  "clearsStatus self (CallSetDefaultStatus a status) = (a = self \<and> status = 0)"
| "clearsStatus self (CallSetControllerFn a fn) = False"
| "clearsStatus self (CallRegister a fn) = False"
| "clearsStatus self (CallHandleRequest a w r) = False"

fun dispatches :: "('rw, 'req, 'ctx, 'w) operation \<Rightarrow> bool" where
  "dispatches (CallHandleRequest a w r) = True"
| "dispatches (CallSetControllerFn a fn) = False"
| "dispatches (CallSetDefaultStatus a status) = False"
| "dispatches (CallRegister a fn) = False"

subsection \<open>A concrete instance: the kittens example\<close>

text \<open>
  The example program registers \<open>POST /kittens\<close> on the root router and
  \<open>GET /{id}\<close> on the sub-router for \<open>/kittens\<close>. The instance below is the memory
  just before the two calls of \<open>register\<close>, with an engine that records every
  \<open>NewRoute\<close>, constructors that record what they are given, and a controller
  function that records the context it is called with.
\<close>

datatype event =
    Wired string string HandlerFunc
  | Wrapped nat int
  | Bound string addr
  | Served nat int string addr

type_synonym kctx = "(nat \<times> int) \<times> string \<times> addr"

definition plainRoute :: "(string, event list) FrameworkRoute" where
  "plainRoute = \<lparr>fr_RouteVars = (\<lambda>r w. (Returned Map.empty, w))\<rparr>"

definition recordingEngine :: "(string, event list) FrameworkRouter" where
  "recordingEngine =
     \<lparr>NewRoute = (\<lambda>m p h w. (Returned (Some plainRoute), w @ [Wired m p h]))\<rparr>"

definition wrapWriter :: "nat \<Rightarrow> int \<Rightarrow> (nat \<times> int, event list) call" where
  "wrapWriter w status evs = (Returned (w, status), evs @ [Wrapped w status])"

definition wrapContext :: "nat \<times> int \<Rightarrow> string \<Rightarrow> addr \<Rightarrow> (kctx, event list) call" where
  "wrapContext wrapper r a evs = (Returned (wrapper, r, a), evs @ [Bound r a])"

definition serve :: "(kctx, event list) ControllerFn" where
  "serve ctx evs =
     (case ctx of ((w, status), r, a) \<Rightarrow> (Returned (), evs @ [Served w status r a]))"

definition addKitten :: "(string, kctx, event list) Route" where
  "addKitten =
     \<lparr>fwRoute = None, router = Some 4, method = ''POST'', path = ''/kittens'',
      fullPath = ''/kittens'', defaultStatus = 0, controllerFn = None\<rparr>"

definition getKitten :: "(string, kctx, event list) Route" where
  "getKitten =
     \<lparr>fwRoute = None, router = Some 5, method = ''GET'', path = ''/{id}'',
      fullPath = ''/kittens/{id}'', defaultStatus = 0, controllerFn = None\<rparr>"

definition kittens :: "(string, kctx, event list) memory" where
  "kittens =
     \<lparr>routes = [2 \<mapsto> addKitten, 3 \<mapsto> getKitten],
      routers = [4 \<mapsto> \<lparr>fwRouter = Some recordingEngine, prefix = ''''\<rparr>,
                 5 \<mapsto> \<lparr>fwRouter = Some recordingEngine, prefix = ''/kittens''\<rparr>],
      world = []\<rparr>"


section \<open>What each method does to the store\<close>

lemma SetControllerFn_routes:
  "routes (snd (SetControllerFn a fn s)) =
     (case routes s a of None \<Rightarrow> routes s
      | Some r \<Rightarrow> (routes s)(a \<mapsto> r\<lparr>controllerFn := fn\<rparr>))"
  by (simp add: SetControllerFn_def split: option.splits)

lemma SetDefaultStatus_routes:
  "routes (snd (SetDefaultStatus a status s)) =
     (case routes s a of None \<Rightarrow> routes s
      | Some r \<Rightarrow> (routes s)(a \<mapsto> r\<lparr>defaultStatus := status\<rparr>))"
  by (simp add: SetDefaultStatus_def split: option.splits)

lemma SetDefaultStatus_same:
  assumes "routes s self = Some r0" and "defaultStatus r0 = status"
  shows "SetDefaultStatus self status s = (Returned self, s)"
proof -
  have "r0\<lparr>defaultStatus := status\<rparr> = r0" using assms(2) by simp
  moreover have "(routes s)(self \<mapsto> r0) = routes s"
    using assms(1) by (simp add: map_upd_triv)
  ultimately show ?thesis using assms(1) by (simp add: SetDefaultStatus_def)
qed

lemma handleRequest_routes:
  "routes (snd (handleRequest nrw ncr a w r s)) = routes s"
  by (simp add: handleRequest_def split: option.splits prod.splits outcome.splits)

lemma handleRequest_routers:
  "routers (snd (handleRequest nrw ncr a w r s)) = routers s"
  by (simp add: handleRequest_def split: option.splits prod.splits outcome.splits)

lemma handleRequest_calls:
  assumes "routes s self = Some rt"
    and "nrw w (defaultStatus rt) (world s) = (Returned wrapper, w1)"
    and "ncr wrapper r self w1 = (Returned ctx, w2)"
  shows "handleRequest nrw ncr self w r s =
     (case controllerFn rt of
        None \<Rightarrow> (Panicked NilDereference, s\<lparr>world := w2\<rparr>)
      | Some fn \<Rightarrow> (fst (fn ctx w2), s\<lparr>world := snd (fn ctx w2)\<rparr>))"
  using assms by (simp add: handleRequest_def split: option.splits prod.splits)

lemma resolveStatus_defaultStatus:
  "defaultStatus (resolveStatus r) =
     (if defaultStatus r = 0 then (if method r = ''POST'' then 201 else 200)
      else defaultStatus r)"
  by (simp add: resolveStatus_def)

lemma resolveStatus_nonzero: "defaultStatus (resolveStatus r) \<noteq> 0"
  by (simp add: resolveStatus_def)

lemma resolveStatus_fields:
  "method (resolveStatus r) = method r" "path (resolveStatus r) = path r"
  "fullPath (resolveStatus r) = fullPath r" "router (resolveStatus r) = router r"
  "fwRoute (resolveStatus r) = fwRoute r" "controllerFn (resolveStatus r) = controllerFn r"
  by (simp_all add: resolveStatus_def)

lemma register_route_self:
  "routes s self = Some r0 \<Longrightarrow>
   \<exists>h. routes (snd (register self fn s)) self =
          Some ((resolveStatus r0)\<lparr>controllerFn := fn, fwRoute := h\<rparr>) \<and>
        (h = fwRoute r0 \<or> fst (register self fn s) = Returned self)"
  by (auto simp add: register_def Let_def resolveStatus_def
      split: option.splits prod.splits outcome.splits)

lemma register_route_other:
  "a \<noteq> self \<Longrightarrow> routes (snd (register a fn s)) self = routes s self"
  by (simp add: register_def Let_def split: option.splits prod.splits outcome.splits)

lemma register_routers:
  "routers (snd (register a fn s)) = routers s"
  by (simp add: register_def Let_def split: option.splits prod.splits outcome.splits)

lemma register_world:
  assumes "routes s self = Some r0"
    and "router r0 = Some ra" and "routers s ra = Some rtr" and "fwRouter rtr = Some fw"
  shows "world (snd (register self fn s)) =
           snd (NewRoute fw (method r0) (path r0) (BoundHandleRequest self) (world s))"
  using assms
  by (simp add: register_def Let_def resolveStatus_fields split: prod.splits outcome.splits)

subsection \<open>One call of a sequence, seen from one Route\<close>

lemma perform_routers: "routers (perform nrw ncr op s) = routers s"
  by (cases op) (simp_all add: SetControllerFn_def SetDefaultStatus_def register_routers
      handleRequest_routers split: option.splits)

lemma perform_route:
  assumes "routes s self = Some r"
  shows "\<exists>r'. routes (perform nrw ncr op s) self = Some r' \<and>
        path r' = path r \<and> method r' = method r \<and> fullPath r' = fullPath r \<and>
        router r' = router r \<and>
        controllerFn r' =
          (case suppliedFn self op of Some fn \<Rightarrow> fn | None \<Rightarrow> controllerFn r) \<and>
        (defaultStatus r \<noteq> 0 \<and> \<not> clearsStatus self op \<longrightarrow> defaultStatus r' \<noteq> 0) \<and>
        (\<not> registers self op \<longrightarrow> fwRoute r' = fwRoute r) \<and>
        (dispatches op \<longrightarrow> r' = r)"
proof (cases op)
  case (CallSetControllerFn a fn)
  then show ?thesis using assms
    by (auto simp add: SetControllerFn_routes split: option.splits)
next
  case (CallSetDefaultStatus a status)
  then show ?thesis using assms
    by (auto simp add: SetDefaultStatus_routes split: option.splits)
next
  case (CallRegister a fn)
  show ?thesis
  proof (cases "a = self")
    case True
    from register_route_self [OF assms, of fn] obtain h where
      "routes (snd (register self fn s)) self =
         Some ((resolveStatus r)\<lparr>controllerFn := fn, fwRoute := h\<rparr>)"
      by blast
    with True CallRegister show ?thesis
      by (simp add: resolveStatus_fields resolveStatus_nonzero)
  next
    case False
    with CallRegister assms show ?thesis by (simp add: register_route_other)
  qed
next
  case (CallHandleRequest a w r)
  then show ?thesis using assms by (simp add: handleRequest_routes)
qed

subsection \<open>Whole sequences\<close>

lemma performAll_Nil: "performAll nrw ncr [] s = s"
  by (simp add: performAll_def)

lemma performAll_Cons:
  "performAll nrw ncr (op # ops) s = performAll nrw ncr ops (perform nrw ncr op s)"
  by (simp add: performAll_def)

lemma performAll_append:
  "performAll nrw ncr (xs @ ys) s = performAll nrw ncr ys (performAll nrw ncr xs s)"
  by (simp add: performAll_def)

lemma performAll_route:
  "routes s self = Some r \<Longrightarrow>
   \<exists>r'. routes (performAll nrw ncr ops s) self = Some r' \<and>
        path r' = path r \<and> method r' = method r \<and> fullPath r' = fullPath r \<and>
        router r' = router r"
proof (induction ops arbitrary: s r)
  case Nil
  then show ?case by (simp add: performAll_Nil)
next
  case (Cons op ops)
  from perform_route [OF Cons.prems, of nrw ncr op] obtain r1 where
    r1: "routes (perform nrw ncr op s) self = Some r1" "method r1 = method r"
      "path r1 = path r" "fullPath r1 = fullPath r" "router r1 = router r"
    by blast
  from Cons.IH [OF r1(1)] r1 show ?case
    by (simp add: performAll_Cons)
qed

lemma performAll_no_supply:
  "routes s self = Some r \<Longrightarrow> \<forall>op \<in> set ops. suppliedFn self op = None \<Longrightarrow>
   \<exists>r'. routes (performAll nrw ncr ops s) self = Some r' \<and> controllerFn r' = controllerFn r"
proof (induction ops arbitrary: s r)
  case Nil
  then show ?case by (simp add: performAll_Nil)
next
  case (Cons op ops)
  from perform_route [OF Cons.prems(1), of nrw ncr op] Cons.prems(2) obtain r1 where
    r1: "routes (perform nrw ncr op s) self = Some r1" "controllerFn r1 = controllerFn r"
    by auto
  from Cons.IH [OF r1(1)] Cons.prems(2) r1(2) show ?case
    by (simp add: performAll_Cons)
qed

lemma performAll_nonzero:
  "routes s self = Some r \<Longrightarrow> defaultStatus r \<noteq> 0 \<Longrightarrow>
   \<forall>op \<in> set ops. \<not> clearsStatus self op \<Longrightarrow>
   \<exists>r'. routes (performAll nrw ncr ops s) self = Some r' \<and> defaultStatus r' \<noteq> 0"
proof (induction ops arbitrary: s r)
  case Nil
  then show ?case by (simp add: performAll_Nil)
next
  case (Cons op ops)
  from perform_route [OF Cons.prems(1), of nrw ncr op] Cons.prems(2,3) obtain r1 where
    r1: "routes (perform nrw ncr op s) self = Some r1" "defaultStatus r1 \<noteq> 0"
    by auto
  from Cons.IH [OF r1] Cons.prems(3) show ?case
    by (simp add: performAll_Cons)
qed

lemma performAll_unregistered:
  "routes s self = Some r \<Longrightarrow> \<forall>op \<in> set ops. \<not> registers self op \<Longrightarrow>
   \<exists>r'. routes (performAll nrw ncr ops s) self = Some r' \<and> fwRoute r' = fwRoute r"
proof (induction ops arbitrary: s r)
  case Nil
  then show ?case by (simp add: performAll_Nil)
next
  case (Cons op ops)
  from perform_route [OF Cons.prems(1), of nrw ncr op] Cons.prems(2) obtain r1 where
    r1: "routes (perform nrw ncr op s) self = Some r1" "fwRoute r1 = fwRoute r"
    by auto
  from Cons.IH [OF r1(1)] Cons.prems(2) r1(2) show ?case
    by (simp add: performAll_Cons)
qed


lemma kittens_routes:
  "routes kittens 2 = Some addKitten" "routes kittens 3 = Some getKitten"
  by (simp_all add: kittens_def)

section \<open>The claims\<close>

text \<open>
  C1. When \<open>register(fn)\<close> is called on a Route whose \<open>defaultStatus\<close> is 0, it
  sets \<open>defaultStatus\<close> to 201 if the method is the string \<open>POST\<close> and to 200 for
  every other method; a nonzero \<open>defaultStatus\<close> is left as it is. This holds
  whether or not the adapter call that follows returns.
\<close>

theorem register_resolves_defaultStatus:
  assumes "routes s self = Some r0"
  shows "\<exists>r. routes (snd (register self fn s)) self = Some r \<and>
             defaultStatus r =
               (if defaultStatus r0 = 0 then (if method r0 = ''POST'' then 201 else 200)
                else defaultStatus r0)"
proof -
  from register_route_self [OF assms, of fn] obtain h where
    "routes (snd (register self fn s)) self =
       Some ((resolveStatus r0)\<lparr>controllerFn := fn, fwRoute := h\<rparr>)"
    by blast
  then show ?thesis
    by (simp add: resolveStatus_defaultStatus)
qed

theorem register_resolves_defaultStatus_witness:
  "(\<exists>r. routes (snd (register 2 (Some serve) kittens)) 2 = Some r \<and> defaultStatus r = 201) \<and>
   (\<exists>r. routes (snd (register 3 (Some serve) kittens)) 3 = Some r \<and> defaultStatus r = 200) \<and>
   (\<exists>r. routes (snd (register 3 (Some serve) (snd (SetDefaultStatus 3 404 kittens)))) 3 =
          Some r \<and> defaultStatus r = 404)"
proof -
  have "routes (snd (SetDefaultStatus 3 404 kittens)) 3 =
      Some (getKitten\<lparr>defaultStatus := 404\<rparr>)"
    by (simp add: SetDefaultStatus_routes kittens_routes)
  from register_resolves_defaultStatus [OF kittens_routes(1), of "Some serve"]
    register_resolves_defaultStatus [OF kittens_routes(2), of "Some serve"]
    register_resolves_defaultStatus [OF this, of "Some serve"]
  show ?thesis by (simp add: addKitten_def getKitten_def)
qed



text \<open>
  C3. As first stated (\<open>defaultStatus\<close> is never 0 at a dispatch once \<open>register\<close>
  has been called, whatever is called afterwards) the claim fails:
  \<open>SetDefaultStatus\<close> is a plain assignment, and \<open>SetDefaultStatus(0)\<close> after
  \<open>register\<close> puts the 0 back. What holds: \<open>register\<close> leaves \<open>defaultStatus\<close>
  nonzero, and it stays nonzero under every later sequence of calls of
  \<open>SetControllerFn\<close>, \<open>register\<close>, \<open>handleRequest\<close> and \<open>SetDefaultStatus\<close>, on this
  Route or on others, in which no \<open>SetDefaultStatus(0)\<close> is made on this Route.
  Nothing is asked of the calls made before \<open>register\<close>.
\<close>

theorem defaultStatus_nonzero_after_register:
  assumes "routes s self = Some r0"
    and "\<forall>op \<in> set ops. \<not> clearsStatus self op"
  shows "\<exists>r. routes (performAll nrw ncr ops (snd (register self fn s))) self = Some r \<and>
             defaultStatus r \<noteq> 0"
proof -
  from register_route_self [OF assms(1), of fn] obtain h where
    h: "routes (snd (register self fn s)) self =
         Some ((resolveStatus r0)\<lparr>controllerFn := fn, fwRoute := h\<rparr>)"
    by blast
  have "defaultStatus ((resolveStatus r0)\<lparr>controllerFn := fn, fwRoute := h\<rparr>) \<noteq> 0"
    by (simp add: resolveStatus_nonzero)
  from performAll_nonzero [OF h this assms(2)] show ?thesis .
qed

theorem defaultStatus_nonzero_after_register_witness:
  "\<exists>r. routes (performAll wrapWriter wrapContext
          [CallSetDefaultStatus 2 404, CallSetDefaultStatus 3 0,
           CallHandleRequest 2 7 ''POST /kittens'', CallSetControllerFn 2 None,
           CallRegister 2 (Some serve)]
          (snd (register 2 (Some serve) kittens))) 2 = Some r \<and> defaultStatus r \<noteq> 0"
  by (rule defaultStatus_nonzero_after_register [OF kittens_routes(1)]) simp

text \<open>
  The failing sequence on the POST route of the example: \<open>register\<close>, then
  \<open>SetDefaultStatus(0)\<close>, then one request. The field is 0 again, the wrapper is
  built with status 0 and the controller function sees it.
\<close>

theorem defaultStatus_zero_after_register_counterexample:
  "map_option defaultStatus
     (routes (performAll wrapWriter wrapContext
        [CallRegister 2 (Some serve), CallSetDefaultStatus 2 0] kittens) 2) = Some 0 \<and>
   world (performAll wrapWriter wrapContext
        [CallRegister 2 (Some serve), CallSetDefaultStatus 2 0,
         CallHandleRequest 2 7 ''POST /kittens''] kittens) =
     [Wired ''POST'' ''/kittens'' (BoundHandleRequest 2), Wrapped 7 0,
      Bound ''POST /kittens'' 2, Served 7 0 ''POST /kittens'' 2]"
  by (simp add: performAll_def register_def SetDefaultStatus_def handleRequest_def
      resolveStatus_def kittens_def addKitten_def recordingEngine_def wrapWriter_def
      wrapContext_def serve_def)

text \<open>
  C4. For a Route with a controller function, \<open>handleRequest\<close> builds the response
  wrapper from the raw writer and the Route's \<open>defaultStatus\<close>, builds the context
  from that wrapper, the raw request and the Route pointer, and calls the
  controller function once, on that context: the outcome and the world it leaves
  are those of one call. The controller function takes the context only; the raw
  writer and the raw request reach it through the context.
\<close>

theorem handleRequest_invokes_controllerFn_once:
  assumes "routes s self = Some rt"
    and "controllerFn rt = Some fn"
    and "nrw w (defaultStatus rt) (world s) = (Returned wrapper, w1)"
    and "ncr wrapper r self w1 = (Returned ctx, w2)"
  shows "handleRequest nrw ncr self w r s = (fst (fn ctx w2), s\<lparr>world := snd (fn ctx w2)\<rparr>)"
  using handleRequest_calls [where nrw = nrw and ncr = ncr, OF assms(1,3,4)] assms(2)
  by simp

theorem handleRequest_invokes_controllerFn_once_witness:
  "handleRequest wrapWriter wrapContext 2 7 ''POST /kittens''
     (snd (register 2 (Some serve) kittens)) =
   (Returned (),
    (snd (register 2 (Some serve) kittens))
      \<lparr>world := [Wired ''POST'' ''/kittens'' (BoundHandleRequest 2), Wrapped 7 201,
                 Bound ''POST /kittens'' 2, Served 7 201 ''POST /kittens'' 2]\<rparr>)"
proof -
  let ?s = "snd (register 2 (Some serve) kittens)"
  from register_route_self [OF kittens_routes(1), of "Some serve"] obtain rt where
    rt: "routes ?s 2 = Some rt" "controllerFn rt = Some serve" "defaultStatus rt = 201"
    by (auto simp add: resolveStatus_defaultStatus addKitten_def)
  have w: "world ?s = [Wired ''POST'' ''/kittens'' (BoundHandleRequest 2)]"
    by (simp add: register_def resolveStatus_def kittens_def addKitten_def recordingEngine_def)
  have "handleRequest wrapWriter wrapContext 2 7 ''POST /kittens'' ?s =
     (fst (serve ((7, 201), ''POST /kittens'', 2)
            (world ?s @ [Wrapped 7 201, Bound ''POST /kittens'' 2])),
      ?s\<lparr>world := snd (serve ((7, 201), ''POST /kittens'', 2)
            (world ?s @ [Wrapped 7 201, Bound ''POST /kittens'' 2]))\<rparr>)"
    by (rule handleRequest_invokes_controllerFn_once [OF rt(1,2)])
      (simp_all add: rt(3) wrapWriter_def wrapContext_def)
  then show ?thesis by (simp add: serve_def w)
qed

text \<open>
  C5. \<open>register\<close> is not idempotent. On a Route whose router and adapter are
  there, every call of \<open>register\<close> makes one call of the adapter's \<open>NewRoute\<close> with
  the Route's method, its path and the bound \<open>handleRequest\<close>, whether that call
  returns or panics; a second \<open>register\<close> makes a second call of \<open>NewRoute\<close> with
  the same arguments, on the world the first one left.
\<close>

theorem register_not_idempotent:
  assumes "routes s self = Some r0"
    and "router r0 = Some ra" and "routers s ra = Some rtr" and "fwRouter rtr = Some fw"
  shows "world (snd (register self fn s)) =
           snd (NewRoute fw (method r0) (path r0) (BoundHandleRequest self) (world s)) \<and>
         world (snd (register self fn' (snd (register self fn s)))) =
           snd (NewRoute fw (method r0) (path r0) (BoundHandleRequest self)
                 (snd (NewRoute fw (method r0) (path r0) (BoundHandleRequest self) (world s))))"
proof -
  let ?s1 = "snd (register self fn s)"
  have w1: "world ?s1 =
      snd (NewRoute fw (method r0) (path r0) (BoundHandleRequest self) (world s))"
    by (rule register_world [OF assms])
  from register_route_self [OF assms(1), of fn] obtain h where
    h: "routes ?s1 self = Some ((resolveStatus r0)\<lparr>controllerFn := fn, fwRoute := h\<rparr>)"
    by blast
  let ?r1 = "(resolveStatus r0)\<lparr>controllerFn := fn, fwRoute := h\<rparr>"
  have "router ?r1 = Some ra" "method ?r1 = method r0" "path ?r1 = path r0"
    using assms(2) by (simp_all add: resolveStatus_fields)
  moreover have "routers ?s1 ra = Some rtr"
    using assms(3) by (simp add: register_routers)
  ultimately have "world (snd (register self fn' ?s1)) =
      snd (NewRoute fw (method r0) (path r0) (BoundHandleRequest self) (world ?s1))"
    using register_world [OF h, of ra rtr fw fn'] assms(4) by simp
  with w1 show ?thesis by simp
qed

theorem register_not_idempotent_witness:
  "world (snd (register 2 (Some serve) kittens)) =
     [Wired ''POST'' ''/kittens'' (BoundHandleRequest 2)] \<and>
   world (snd (register 2 (Some serve) (snd (register 2 (Some serve) kittens)))) =
     [Wired ''POST'' ''/kittens'' (BoundHandleRequest 2),
      Wired ''POST'' ''/kittens'' (BoundHandleRequest 2)]"
proof -
  have "router addKitten = Some 4"
    and "routers kittens 4 = Some \<lparr>fwRouter = Some recordingEngine, prefix = ''''\<rparr>"
    and "fwRouter \<lparr>fwRouter = Some recordingEngine, prefix = ''''\<rparr> = Some recordingEngine"
    by (simp_all add: addKitten_def kittens_def)
  from register_not_idempotent [OF kittens_routes(1) this, of "Some serve" "Some serve"]
  show ?thesis by (simp add: recordingEngine_def addKitten_def kittens_def)
qed

text \<open>
  C6. In route.go only \<open>register\<close> assigns \<open>fwRoute\<close>. For a Route whose \<open>fwRoute\<close>
  is nil, as it is in a Route just constructed, and after any sequence of calls
  that holds no \<open>register\<close> on this Route, \<open>RouteVars\<close> panics with the nil
  dereference error and returns no mapping; the memory is as it was.
\<close>

theorem RouteVars_before_register_panics:
  assumes "routes s self = Some rt"
    and "fwRoute rt = None"
    and "\<forall>op \<in> set ops. \<not> registers self op"
  shows "RouteVars self req (performAll nrw ncr ops s) =
           (Panicked NilDereference, performAll nrw ncr ops s)"
proof -
  from performAll_unregistered [OF assms(1,3)] obtain r' where
    "routes (performAll nrw ncr ops s) self = Some r'" "fwRoute r' = fwRoute rt"
    by blast
  with assms(2) show ?thesis by (simp add: RouteVars_def)
qed

theorem RouteVars_before_register_panics_witness:
  "RouteVars 2 ''POST /kittens''
     (performAll wrapWriter wrapContext
        [CallSetDefaultStatus 2 202, CallSetControllerFn 2 (Some serve), CallRegister 3 (Some serve),
         CallHandleRequest 2 7 ''POST /kittens''] kittens) =
   (Panicked NilDereference,
    performAll wrapWriter wrapContext
        [CallSetDefaultStatus 2 202, CallSetControllerFn 2 (Some serve), CallRegister 3 (Some serve),
         CallHandleRequest 2 7 ''POST /kittens''] kittens)"
proof -
  have "fwRoute addKitten = None" by (simp add: addKitten_def)
  from kittens_routes(1) this show ?thesis
    by (rule RouteVars_before_register_panics) simp
qed

text \<open>
  C7. When \<open>controllerFn\<close> is nil at a dispatch, \<open>handleRequest\<close> panics with the
  nil dereference error and does not return: the wrapper and the context have been
  built by then (the world is the one the two constructors left), and nothing else
  has run. When \<open>controllerFn\<close> is not nil, the outcome of \<open>handleRequest\<close> is the
  outcome of the controller function, so \<open>handleRequest\<close> adds no failure of its
  own.
\<close>

theorem handleRequest_nil_controllerFn_panics:
  assumes "routes s self = Some rt"
    and "nrw w (defaultStatus rt) (world s) = (Returned wrapper, w1)"
    and "ncr wrapper r self w1 = (Returned ctx, w2)"
  shows "(controllerFn rt = None \<longrightarrow>
            handleRequest nrw ncr self w r s = (Panicked NilDereference, s\<lparr>world := w2\<rparr>)) \<and>
         (\<forall>fn. controllerFn rt = Some fn \<longrightarrow>
            fst (handleRequest nrw ncr self w r s) = fst (fn ctx w2))"
  using handleRequest_calls [where nrw = nrw and ncr = ncr, OF assms] by simp

theorem handleRequest_nil_controllerFn_panics_witness:
  "handleRequest wrapWriter wrapContext 2 7 ''POST /kittens'' kittens =
     (Panicked NilDereference, kittens\<lparr>world := [Wrapped 7 0, Bound ''POST /kittens'' 2]\<rparr>) \<and>
   fst (handleRequest wrapWriter wrapContext 2 7 ''POST /kittens''
          (snd (SetControllerFn 2 (Some serve) kittens))) = Returned ()"
proof -
  have n: "controllerFn addKitten = None" "defaultStatus addKitten = 0"
    by (simp_all add: addKitten_def)
  have a: "wrapWriter 7 (defaultStatus addKitten) (world kittens) = (Returned (7, 0), [Wrapped 7 0])"
    by (simp add: wrapWriter_def kittens_def n)
  have b: "wrapContext (7, 0) ''POST /kittens'' 2 [Wrapped 7 0] =
      (Returned ((7, 0), ''POST /kittens'', 2), [Wrapped 7 0, Bound ''POST /kittens'' 2])"
    by (simp add: wrapContext_def)
  let ?s = "snd (SetControllerFn 2 (Some serve) kittens)"
  have r: "routes ?s 2 = Some (addKitten\<lparr>controllerFn := Some serve\<rparr>)"
    by (simp add: SetControllerFn_routes kittens_routes)
  have a': "wrapWriter 7 (defaultStatus (addKitten\<lparr>controllerFn := Some serve\<rparr>)) (world ?s) =
      (Returned (7, 0), [Wrapped 7 0])"
    by (simp add: wrapWriter_def SetControllerFn_def kittens_def n)
  from handleRequest_nil_controllerFn_panics
      [where nrw = wrapWriter and ncr = wrapContext, OF kittens_routes(1) a b]
    handleRequest_nil_controllerFn_panics
      [where nrw = wrapWriter and ncr = wrapContext, OF r a' b]
  show ?thesis by (simp add: n serve_def)
qed

text \<open>
  C8. A Route has one \<open>controllerFn\<close> field, and both \<open>SetControllerFn\<close> and
  \<open>register\<close> assign it. After any sequence of calls, the field holds the func
  value of the most recent \<open>SetControllerFn\<close> or \<open>register\<close> on this Route: the
  calls before it (\<open>pre\<close>) are arbitrary, the calls after it (\<open>post\<close>) hand this
  Route no func value. A second \<open>register\<close> overwrites the handler of the first.
\<close>

theorem controllerFn_is_most_recent:
  assumes "routes s self = Some r0"
    and "suppliedFn self op = Some fn"
    and "\<forall>op' \<in> set post. suppliedFn self op' = None"
  shows "\<exists>r. routes (performAll nrw ncr (pre @ op # post) s) self = Some r \<and>
             controllerFn r = fn"
proof -
  from performAll_route [OF assms(1), of nrw ncr pre] obtain r1 where
    r1: "routes (performAll nrw ncr pre s) self = Some r1" by blast
  from perform_route [OF r1, of nrw ncr op] assms(2) obtain r2 where
    r2: "routes (perform nrw ncr op (performAll nrw ncr pre s)) self = Some r2"
      "controllerFn r2 = fn"
    by auto
  from performAll_no_supply [OF r2(1) assms(3), of nrw ncr] r2(2) show ?thesis
    by (simp add: performAll_append performAll_Cons)
qed

theorem controllerFn_is_most_recent_witness:
  "\<exists>r. routes (performAll wrapWriter wrapContext
          ([CallSetControllerFn 2 None, CallRegister 2 None] @
           CallRegister 2 (Some serve) #
           [CallSetDefaultStatus 2 202, CallSetControllerFn 3 None,
            CallHandleRequest 2 7 ''POST /kittens'']) kittens) 2 = Some r \<and>
        controllerFn r = Some serve"
  by (rule controllerFn_is_most_recent [OF kittens_routes(1)]) simp_all

text \<open>
  C9. \<open>Method\<close>, \<open>Path\<close>, \<open>FullPath\<close> and \<open>ControllerFn\<close> return the field of the
  same name and leave the whole memory, and with it every field of every Route, as
  it was.
\<close>

theorem accessors_read_only:
  assumes "routes s self = Some rt"
  shows "Method self s = (Returned (method rt), s) \<and>
         Path self s = (Returned (path rt), s) \<and>
         FullPath self s = (Returned (fullPath rt), s) \<and>
         ControllerFn self s = (Returned (controllerFn rt), s)"
  using assms by (simp add: Method_def Path_def FullPath_def ControllerFn_def)

theorem accessors_read_only_witness:
  "Method 3 kittens = (Returned ''GET'', kittens) \<and>
   Path 3 kittens = (Returned ''/{id}'', kittens) \<and>
   FullPath 3 kittens = (Returned ''/kittens/{id}'', kittens) \<and>
   ControllerFn 3 kittens = (Returned None, kittens)"
  using accessors_read_only [OF kittens_routes(2)] by (simp add: getKitten_def)

text \<open>
  C10. Zero is the value \<open>register\<close> takes for an unset status. After
  \<open>SetDefaultStatus(0)\<close>, \<open>register\<close> gives the Route the default of its method,
  201 for POST and 200 otherwise, whatever the status was before; and on a Route
  whose status was never set, \<open>SetDefaultStatus(0)\<close> followed by \<open>register\<close> gives
  the same outcome and the same memory as \<open>register\<close> alone.
\<close>

theorem SetDefaultStatus_zero_is_unset:
  assumes "routes s self = Some r0"
  shows "(\<exists>r. routes (snd (register self fn (snd (SetDefaultStatus self 0 s)))) self = Some r \<and>
              defaultStatus r = (if method r0 = ''POST'' then 201 else 200)) \<and>
         (defaultStatus r0 = 0 \<longrightarrow>
            register self fn (snd (SetDefaultStatus self 0 s)) = register self fn s)"
proof -
  have "routes (snd (SetDefaultStatus self 0 s)) self = Some (r0\<lparr>defaultStatus := 0\<rparr>)"
    using assms by (simp add: SetDefaultStatus_routes)
  from register_route_self [OF this, of fn] obtain h where
    "routes (snd (register self fn (snd (SetDefaultStatus self 0 s)))) self =
       Some ((resolveStatus (r0\<lparr>defaultStatus := 0\<rparr>))\<lparr>controllerFn := fn, fwRoute := h\<rparr>)"
    by blast
  then have "\<exists>r. routes (snd (register self fn (snd (SetDefaultStatus self 0 s)))) self = Some r \<and>
              defaultStatus r = (if method r0 = ''POST'' then 201 else 200)"
    by (simp add: resolveStatus_defaultStatus)
  moreover have "defaultStatus r0 = 0 \<longrightarrow>
      register self fn (snd (SetDefaultStatus self 0 s)) = register self fn s"
    using SetDefaultStatus_same [OF assms, of 0] by simp
  ultimately show ?thesis by blast
qed

theorem SetDefaultStatus_zero_is_unset_witness:
  "(\<exists>r. routes (snd (register 2 (Some serve) (snd (SetDefaultStatus 2 0 kittens)))) 2 = Some r \<and>
        defaultStatus r = 201) \<and>
   register 2 (Some serve) (snd (SetDefaultStatus 2 0 kittens)) = register 2 (Some serve) kittens"
proof -
  have z: "defaultStatus addKitten = 0" "method addKitten = ''POST''"
    by (simp_all add: addKitten_def)
  note t = SetDefaultStatus_zero_is_unset [OF kittens_routes(1), of "Some serve"]
  from conjunct1 [OF t] have
    "\<exists>r. routes (snd (register 2 (Some serve) (snd (SetDefaultStatus 2 0 kittens)))) 2 =
          Some r \<and> defaultStatus r = 201"
    by (simp add: z)
  moreover from conjunct2 [OF t] z(1) have
    "register 2 (Some serve) (snd (SetDefaultStatus 2 0 kittens)) =
     register 2 (Some serve) kittens"
    by simp
  ultimately show ?thesis by (rule conjI)
qed

end
